theory Spec2Isabelle
  imports Main "HOL-Library.Word" "HOL-Library.Sublist" "HOL-Library.Char_ord"
    "HOL-Library.List_Lexorder" "HOL-Library.AList"
begin

section \<open>Go values: bytes, strings, errors and panics\<close>

text \<open>
  A Go \<open>string\<close> is a sequence of bytes; it is modelled as a \<open>char list\<close> (an Isabelle
  \<open>char\<close> is one byte), so \<open>length\<close> is Go's \<open>len\<close> and \<open>str ! i\<close> is \<open>str[i]\<close> while
  \<open>i < length str\<close>. An index out of range is a run-time panic in Go and a value of type
  \<open>panic\<close> here. An \<open>error\<close> is the value \<open>errors.New\<close> builds; Go's \<open>nil\<close> error is
  \<open>None\<close>. A function returning \<open>(string, error)\<close> returns a pair, or panics.
\<close>

abbreviation NL :: char where "NL \<equiv> CHR 0x0A"
abbreviation DQ :: char where "DQ \<equiv> CHR 0x22"
abbreviation BSL :: char where "BSL \<equiv> CHR 0x5C"

datatype error = errors_New string

datatype panic = IndexOutOfRange nat nat

type_synonym int64 = "64 word"

subsection \<open>Package strings\<close>

definition strings_HasPrefix :: "string \<Rightarrow> string \<Rightarrow> bool" where
  "strings_HasPrefix s pre = prefix pre s"

fun strings_Contains :: "string \<Rightarrow> string \<Rightarrow> bool" where
  "strings_Contains [] substr = (substr = [])"
| "strings_Contains (c # s) substr = (prefix substr (c # s) \<or> strings_Contains s substr)"

text \<open>
  \<open>strings.ReplaceAll\<close> replaces the non-overlapping instances of \<open>old\<close>, scanning from
  the left. Both calls of the program pass a one-byte \<open>old\<close>; the empty \<open>old\<close>, which Go
  treats specially, is left alone.
\<close>

function strings_ReplaceAll :: "string \<Rightarrow> string \<Rightarrow> string \<Rightarrow> string" where
  "strings_ReplaceAll s old new =
     (if s = [] \<or> old = [] then s
      else if prefix old s then new @ strings_ReplaceAll (drop (length old) s) old new
      else hd s # strings_ReplaceAll (tl s) old new)"
  by pat_completeness auto
termination
  by (relation "measure (\<lambda>(s, old, new). length s)") (auto simp: length_greater_0_conv)

declare strings_ReplaceAll.simps [simp del]

text \<open>
  \<open>strings.TrimSpace\<close> removes leading and trailing white space as Unicode defines it
  (\<open>unicode.IsSpace\<close>). The white-space code points, in UTF-8: the six ASCII ones,
  U+0085, U+00A0, U+1680, U+2000 to U+200A, U+2028, U+2029, U+202F, U+205F, U+3000.
\<close>

definition unicode_IsSpace_utf8 :: "string list" where
  "unicode_IsSpace_utf8 =
     [[CHR 0x09], [CHR 0x0A], [CHR 0x0B], [CHR 0x0C], [CHR 0x0D], [CHR 0x20],
      [CHR 0xC2, CHR 0x85], [CHR 0xC2, CHR 0xA0],
      [CHR 0xE1, CHR 0x9A, CHR 0x80],
      [CHR 0xE2, CHR 0x80, CHR 0x80], [CHR 0xE2, CHR 0x80, CHR 0x81],
      [CHR 0xE2, CHR 0x80, CHR 0x82], [CHR 0xE2, CHR 0x80, CHR 0x83],
      [CHR 0xE2, CHR 0x80, CHR 0x84], [CHR 0xE2, CHR 0x80, CHR 0x85],
      [CHR 0xE2, CHR 0x80, CHR 0x86], [CHR 0xE2, CHR 0x80, CHR 0x87],
      [CHR 0xE2, CHR 0x80, CHR 0x88], [CHR 0xE2, CHR 0x80, CHR 0x89],
      [CHR 0xE2, CHR 0x80, CHR 0x8A],
      [CHR 0xE2, CHR 0x80, CHR 0xA8], [CHR 0xE2, CHR 0x80, CHR 0xA9],
      [CHR 0xE2, CHR 0x80, CHR 0xAF],
      [CHR 0xE2, CHR 0x81, CHR 0x9F],
      [CHR 0xE3, CHR 0x80, CHR 0x80]]"

lemma unicode_IsSpace_utf8_nonempty: "w \<in> set unicode_IsSpace_utf8 \<Longrightarrow> w \<noteq> []"
  by (auto simp: unicode_IsSpace_utf8_def)

function strings_TrimLeftSpace :: "string \<Rightarrow> string" where
  "strings_TrimLeftSpace s =
     (case List.find (\<lambda>w. prefix w s) unicode_IsSpace_utf8 of
        None \<Rightarrow> s
      | Some w \<Rightarrow> strings_TrimLeftSpace (drop (length w) s))"
  by pat_completeness auto
termination
proof (relation "measure length")
  show "wf (measure length)" by simp
next
  fix s :: string and w
  assume "List.find (\<lambda>w. prefix w s) unicode_IsSpace_utf8 = Some w"
  then have w: "w \<in> set unicode_IsSpace_utf8" and p: "prefix w s"
    by (auto simp: find_Some_iff)
  from w have "w \<noteq> []" by (rule unicode_IsSpace_utf8_nonempty)
  moreover from p obtain t where "s = w @ t"
    by (auto simp: prefix_def)
  ultimately show "(drop (length w) s, s) \<in> measure length"
    by (cases w) auto
qed

function strings_TrimRightSpace :: "string \<Rightarrow> string" where
  "strings_TrimRightSpace s =
     (case List.find (\<lambda>w. suffix w s) unicode_IsSpace_utf8 of
        None \<Rightarrow> s
      | Some w \<Rightarrow> strings_TrimRightSpace (take (length s - length w) s))"
  by pat_completeness auto
termination
proof (relation "measure length")
  show "wf (measure length)" by simp
next
  fix s :: string and w
  assume "List.find (\<lambda>w. suffix w s) unicode_IsSpace_utf8 = Some w"
  then have w: "w \<in> set unicode_IsSpace_utf8" and p: "suffix w s"
    by (auto simp: find_Some_iff)
  from w have "w \<noteq> []" by (rule unicode_IsSpace_utf8_nonempty)
  moreover from p obtain t where "s = t @ w"
    by (auto simp: suffix_def)
  ultimately show "(take (length s - length w) s, s) \<in> measure length"
    by (cases w) auto
qed

declare strings_TrimLeftSpace.simps [simp del]
declare strings_TrimRightSpace.simps [simp del]

definition strings_TrimSpace :: "string \<Rightarrow> string" where
  "strings_TrimSpace s = strings_TrimRightSpace (strings_TrimLeftSpace s)"

subsection \<open>Package strconv: integers\<close>

text \<open>
  \<open>strconv.AppendInt(dst, i, 10)\<close> appends the decimal digits of \<open>i\<close>, after a minus sign
  when \<open>i\<close> is negative.
\<close>

definition digit_char :: "nat \<Rightarrow> char" where
  "digit_char d = ''0123456789'' ! d"

fun decimal_digits :: "nat \<Rightarrow> string" where
  "decimal_digits n =
     (if n < 10 then [digit_char n] else decimal_digits (n div 10) @ [digit_char (n mod 10)])"

declare decimal_digits.simps [simp del]

definition strconv_FormatInt :: "int64 \<Rightarrow> string" where
  "strconv_FormatInt i =
     (if sint i < 0 then CHR ''-'' # decimal_digits (nat (- sint i))
      else decimal_digits (nat (sint i)))"

definition strconv_AppendInt :: "string \<Rightarrow> int64 \<Rightarrow> string" where
  "strconv_AppendInt dst i = dst @ strconv_FormatInt i"

text \<open>
  \<open>strconv.AppendFloat(dst, f, 'f', -1, 64)\<close> appends the shortest decimal text that
  reads back as \<open>f\<close>. The text of a float64 is the library's; the model takes it as the
  parameter \<open>fmt\<close>, over any type \<open>'f\<close> of floating-point values.
\<close>

definition strconv_AppendFloat :: "('f \<Rightarrow> string) \<Rightarrow> string \<Rightarrow> 'f \<Rightarrow> string" where
  "strconv_AppendFloat fmt dst f = dst @ fmt f"

section \<open>The growable buffer\<close>

text \<open>
  \<open>StringBuilder\<close> holds one byte slice. Its capacity changes no content and is not
  modelled.
\<close>

record StringBuilder =
  buf :: "char list"

definition Len :: "StringBuilder \<Rightarrow> nat" where
  "Len b = length (buf b)"

definition Write :: "StringBuilder \<Rightarrow> char list \<Rightarrow> StringBuilder" where
  "Write b p = b\<lparr>buf := buf b @ p\<rparr>"

definition WriteByte :: "StringBuilder \<Rightarrow> char \<Rightarrow> StringBuilder" where
  "WriteByte b c = b\<lparr>buf := buf b @ [c]\<rparr>"

definition WriteString :: "StringBuilder \<Rightarrow> string \<Rightarrow> StringBuilder" where
  "WriteString b s = b\<lparr>buf := buf b @ s\<rparr>"

definition String :: "StringBuilder \<Rightarrow> string" where
  "String b = buf b"

definition Bytes :: "StringBuilder \<Rightarrow> char list" where
  "Bytes b = buf b"

definition Reset :: "StringBuilder \<Rightarrow> StringBuilder" where
  "Reset b = b\<lparr>buf := take 0 (buf b)\<rparr>"

text \<open>
  Modelled from the spec: the accessors \<open>GetBuf\<close> and \<open>SetBuf\<close> and the pool
  (\<open>GetBuffer\<close>, \<open>PutBuffer\<close>) are used by the encoders but are not in the source.
  The accessors read and replace the byte slice. By the spec's pool contract a buffer
  that is acquired has logical length 0, and releasing it has no effect on the result
  of the call.
\<close>

definition GetBuf :: "StringBuilder \<Rightarrow> char list" where
  "GetBuf b = buf b"

definition SetBuf :: "StringBuilder \<Rightarrow> char list \<Rightarrow> StringBuilder" where
  "SetBuf b p = b\<lparr>buf := p\<rparr>"

definition GetBuffer :: StringBuilder where
  "GetBuffer = \<lparr>buf = []\<rparr>"

section \<open>Sanitizers\<close>

text \<open>
  Modelled from the spec: the constants \<open>DeltaPrefix\<close> and \<open>AltDeltaPrefix\<close> of
  package \<open>internal\<close> are not in the source. The spec calls them two one-codepoint
  spellings of the delta marker; the comments of \<open>sanitizeInternal\<close> name the code
  points, U+2206 and U+0394, whose UTF-8 encodings have the three and the two bytes that
  \<open>skipHead\<close> counts.
\<close>

definition DeltaPrefix :: string where
  "DeltaPrefix = [CHR 0xE2, CHR 0x88, CHR 0x86]"

definition AltDeltaPrefix :: string where
  "AltDeltaPrefix = [CHR 0xCE, CHR 0x94]"

definition isLegal :: "char \<Rightarrow> bool" where
  "isLegal cur =
     (\<not> (\<not> (CHR '','' \<le> cur \<and> cur \<le> CHR ''9'') \<and> \<not> (CHR ''A'' \<le> cur \<and> cur \<le> CHR ''Z'')
         \<and> \<not> (CHR ''a'' \<le> cur \<and> cur \<le> CHR ''z'') \<and> cur \<noteq> CHR ''_''))"

text \<open>
  Go's conversion \<open>string(cur)\<close> of a byte reads it as a code point and encodes it in
  UTF-8: one byte below 0x80, two bytes from 0x80 on.
\<close>

definition string_of_byte :: "char \<Rightarrow> string" where
  "string_of_byte cur =
     (if (of_char cur :: nat) < 128 then [cur]
      else [char_of (192 + (of_char cur :: nat) div 64), char_of (128 + (of_char cur :: nat) mod 64)])"

text \<open>
  The loop \<open>for i := skipHead; i < len(str); i++\<close> reads the bytes of \<open>str\<close> from
  \<open>skipHead\<close> on, in order: a recursion over \<open>drop skipHead str\<close>.
\<close>

fun sanitizeInternalSb_loop :: "StringBuilder \<Rightarrow> string \<Rightarrow> StringBuilder" where
  "sanitizeInternalSb_loop sb [] = sb"
| "sanitizeInternalSb_loop sb (cur # rest) =
     sanitizeInternalSb_loop
       (if isLegal cur then WriteByte sb cur else WriteByte sb (CHR ''-'')) rest"

definition sanitizeInternalSb :: "StringBuilder \<Rightarrow> string \<Rightarrow> panic + StringBuilder" where
  "sanitizeInternalSb sb str =
     (let skipHead = (0::nat);
          (sb, skipHead) =
            (if strings_HasPrefix str DeltaPrefix then (WriteString sb DeltaPrefix, 3)
             else (sb, skipHead));
          (sb, skipHead) =
            (if strings_HasPrefix str AltDeltaPrefix then (WriteString sb AltDeltaPrefix, 2)
             else (sb, skipHead))
      in if length str \<le> skipHead then Inl (IndexOutOfRange skipHead (length str))
         else
           let (sb, skipHead) =
                 (if str ! skipHead = CHR ''~'' then (WriteByte sb (CHR ''~''), skipHead + 1)
                  else (sb, skipHead))
           in Inr (sanitizeInternalSb_loop sb (drop skipHead str)))"

fun sanitizeInternal_loop :: "StringBuilder \<Rightarrow> string \<Rightarrow> StringBuilder" where
  "sanitizeInternal_loop sb [] = sb"
| "sanitizeInternal_loop sb (cur # rest) =
     sanitizeInternal_loop
       (if isLegal cur then WriteString sb (string_of_byte cur) else WriteByte sb (CHR ''-''))
       rest"

definition sanitizeInternal :: "string \<Rightarrow> panic + string" where
  "sanitizeInternal str =
     (let sb = GetBuffer;
          skipHead = (0::nat);
          (sb, skipHead) =
            (if strings_HasPrefix str DeltaPrefix then (WriteString sb DeltaPrefix, 3)
             else (sb, skipHead));
          (sb, skipHead) =
            (if strings_HasPrefix str AltDeltaPrefix then (WriteString sb AltDeltaPrefix, 2)
             else (sb, skipHead))
      in if length str \<le> skipHead then Inl (IndexOutOfRange skipHead (length str))
         else
           let (sb, skipHead) =
                 (if str ! skipHead = CHR ''~'' then (WriteByte sb (CHR ''~''), skipHead + 1)
                  else (sb, skipHead))
           in Inr (String (sanitizeInternal_loop sb (drop skipHead str))))"

definition sanitizeValue :: "string \<Rightarrow> string" where
  "sanitizeValue str =
     (let res = strings_TrimSpace str;
          res = (if strings_Contains str [DQ] then strings_ReplaceAll res [DQ] [BSL, DQ]
                 else res)
      in [DQ] @ strings_ReplaceAll res [NL] [BSL, CHR ''n''] @ [DQ])"

definition sanitizeValueSb :: "StringBuilder \<Rightarrow> string \<Rightarrow> StringBuilder" where
  "sanitizeValueSb sb str =
     (let res = strings_TrimSpace str;
          res = (if strings_Contains str [DQ] then strings_ReplaceAll res [DQ] [BSL, DQ]
                 else res);
          sb = WriteByte sb DQ;
          sb = WriteString sb (strings_ReplaceAll res [NL] [BSL, CHR ''n''])
      in WriteByte sb DQ)"

section \<open>Line encoders\<close>

text \<open>
  A Go map is ranged over in an order the language leaves open. A map argument is
  modelled as the list of its entries in the order the \<open>range\<close> of that call yields
  them, so \<open>len(m) == 0\<close> is \<open>m = []\<close>; what is proved holds for every order.
\<close>

subsection \<open>Metric line\<close>

fun MetricLine_tags ::
  "StringBuilder \<Rightarrow> (string \<times> string) list \<Rightarrow> panic + error + StringBuilder" where
  "MetricLine_tags sb [] = Inr (Inr sb)"
| "MetricLine_tags sb ((k, v) # tags) =
     (if v = [] then Inr (Inl (errors_New ''metric point tag value cannot be blank''))
      else
        let sb = WriteByte sb (CHR '' '');
            sb = WriteByte sb DQ
        in case sanitizeInternalSb sb k of
             Inl p \<Rightarrow> Inl p
           | Inr sb \<Rightarrow>
               let sb = WriteByte sb DQ;
                   sb = WriteByte sb (CHR ''='');
                   sb = sanitizeValueSb sb v
               in MetricLine_tags sb tags)"

definition MetricLine ::
  "('f \<Rightarrow> string) \<Rightarrow> string \<Rightarrow> 'f \<Rightarrow> int64 \<Rightarrow> string \<Rightarrow> (string \<times> string) list \<Rightarrow> string
     \<Rightarrow> panic + string \<times> error option" where
  "MetricLine fmt name val ts source tags defaultSource =
     (if name = [] then Inr ([], Some (errors_New ''empty metric name''))
      else
        let source = (if source = [] then defaultSource else source);
            sb = GetBuffer;
            sb = WriteByte sb DQ
        in case sanitizeInternalSb sb name of
             Inl p \<Rightarrow> Inl p
           | Inr sb \<Rightarrow>
               let sb = WriteByte sb DQ;
                   sb = WriteByte sb (CHR '' '');
                   sb = SetBuf sb (strconv_AppendFloat fmt (GetBuf sb) val);
                   sb = (if ts \<noteq> 0
                         then let sb = WriteByte sb (CHR '' '')
                              in SetBuf sb (strconv_AppendInt (GetBuf sb) ts)
                         else sb);
                   sb = WriteString sb '' source='';
                   sb = sanitizeValueSb sb source
               in case MetricLine_tags sb tags of
                    Inl p \<Rightarrow> Inl p
                  | Inr (Inl err) \<Rightarrow> Inr ([], Some err)
                  | Inr (Inr sb) \<Rightarrow>
                      let sb = WriteByte sb NL in Inr (String sb, None))"

subsection \<open>Histogram line\<close>

text \<open>
  A centroid is a value with a count: the two fields the encoder reads. \<open>Compact\<close>
  (package \<open>histogram\<close>) and the wire token of a granularity (\<open>hg.String()\<close>) are not
  in the source: the encoder takes them as the parameters \<open>compact\<close> and \<open>hgString\<close>.
\<close>

record 'f Centroid =
  Value :: 'f
  Count :: int64

fun HistoLine_centroids ::
  "('f \<Rightarrow> string) \<Rightarrow> StringBuilder \<Rightarrow> 'f Centroid list \<Rightarrow> StringBuilder" where
  "HistoLine_centroids fmt sb [] = sb"
| "HistoLine_centroids fmt sb (centroid # rest) =
     (let sb = WriteString sb '' #'';
          sb = SetBuf sb (strconv_AppendInt (GetBuf sb) (Count centroid));
          sb = WriteByte sb (CHR '' '');
          sb = SetBuf sb (strconv_AppendFloat fmt (GetBuf sb) (Centroid.Value centroid))
      in HistoLine_centroids fmt sb rest)"

fun HistoLine_tags ::
  "StringBuilder \<Rightarrow> (string \<times> string) list \<Rightarrow> panic + error + StringBuilder" where
  "HistoLine_tags sb [] = Inr (Inr sb)"
| "HistoLine_tags sb ((k, v) # tags) =
     (if v = [] then Inr (Inl (errors_New ''histogram tag value cannot be blank''))
      else
        let sb = WriteByte sb (CHR '' '');
            sb = WriteByte sb DQ
        in case sanitizeInternalSb sb k of
             Inl p \<Rightarrow> Inl p
           | Inr sb \<Rightarrow>
               let sb = WriteByte sb DQ;
                   sb = WriteByte sb (CHR ''='');
                   sb = sanitizeValueSb sb v
               in HistoLine_tags sb tags)"

fun HistoLine_hgs :: "('g \<Rightarrow> string) \<Rightarrow> string \<Rightarrow> char list \<Rightarrow> ('g \<times> bool) list \<Rightarrow> string" where
  "HistoLine_hgs hgString sbg sbBytes [] = sbg"
| "HistoLine_hgs hgString sbg sbBytes ((hg, on) # hgs) =
     HistoLine_hgs hgString (if on then sbg @ hgString hg @ sbBytes @ [NL] else sbg) sbBytes hgs"

definition HistoLine ::
  "('f \<Rightarrow> string) \<Rightarrow> ('f Centroid list \<Rightarrow> 'f Centroid list) \<Rightarrow> ('g \<Rightarrow> string)
     \<Rightarrow> string \<Rightarrow> 'f Centroid list \<Rightarrow> ('g \<times> bool) list \<Rightarrow> int64 \<Rightarrow> string
     \<Rightarrow> (string \<times> string) list \<Rightarrow> string \<Rightarrow> panic + string \<times> error option" where
  "HistoLine fmt compact hgString name centroids hgs ts source tags defaultSource =
     (if name = [] then Inr ([], Some (errors_New ''empty distribution name''))
      else if length centroids = 0
      then Inr ([], Some (errors_New ''distribution should have at least one centroid''))
      else if length hgs = 0
      then Inr ([], Some (errors_New ''histogram granularities cannot be empty''))
      else
        let source = (if source = [] then defaultSource else source);
            sb = GetBuffer;
            sb = (if ts \<noteq> 0
                  then let sb = WriteByte sb (CHR '' '')
                       in SetBuf sb (strconv_AppendInt (GetBuf sb) ts)
                  else sb);
            sb = HistoLine_centroids fmt sb (compact centroids);
            sb = WriteByte sb (CHR '' '');
            sb = WriteByte sb DQ
        in case sanitizeInternalSb sb name of
             Inl p \<Rightarrow> Inl p
           | Inr sb \<Rightarrow>
               let sb = WriteByte sb DQ;
                   sb = WriteString sb '' source='';
                   sb = sanitizeValueSb sb source
               in case HistoLine_tags sb tags of
                    Inl p \<Rightarrow> Inl p
                  | Inr (Inl err) \<Rightarrow> Inr ([], Some err)
                  | Inr (Inr sb) \<Rightarrow>
                      let sbBytes = GetBuf sb
                      in Inr (HistoLine_hgs hgString [] sbBytes hgs, None))"



subsection \<open>Span line\<close>

record SpanTag =
  Key :: string
  Value :: string

function isUUIDFormat_loop :: "string \<Rightarrow> nat \<Rightarrow> nat \<Rightarrow> bool" where
  "isUUIDFormat_loop str l i =
     (if i < l then
        (let c = str ! i in
         if i = 8 \<or> i = 13 \<or> i = 18 \<or> i = 23 then
           (if c \<noteq> CHR ''-'' then False else isUUIDFormat_loop str l (i + 1))
         else if \<not> ((CHR ''0'' \<le> c \<and> c \<le> CHR ''9'') \<or> (CHR ''a'' \<le> c \<and> c \<le> CHR ''f'')
                     \<or> (CHR ''A'' \<le> c \<and> c \<le> CHR ''F''))
         then False
         else isUUIDFormat_loop str l (i + 1))
      else True)"
  by pat_completeness auto
termination
  by (relation "measure (\<lambda>(str, l, i). l - i)") auto

declare isUUIDFormat_loop.simps [simp del]

definition isUUIDFormat :: "string \<Rightarrow> bool" where
  "isUUIDFormat str =
     (let l = length str in if l \<noteq> 36 then False else isUUIDFormat_loop str l 0)"

fun SpanLine_parents :: "StringBuilder \<Rightarrow> string list \<Rightarrow> StringBuilder" where
  "SpanLine_parents sb [] = sb"
| "SpanLine_parents sb (parent # parents) =
     (let sb = WriteString sb '' parent='';
          sb = WriteString sb parent
      in SpanLine_parents sb parents)"

fun SpanLine_followsFrom :: "StringBuilder \<Rightarrow> string list \<Rightarrow> StringBuilder" where
  "SpanLine_followsFrom sb [] = sb"
| "SpanLine_followsFrom sb (item # followsFrom) =
     (let sb = WriteString sb '' followsFrom='';
          sb = WriteString sb item
      in SpanLine_followsFrom sb followsFrom)"

fun SpanLine_tags :: "StringBuilder \<Rightarrow> SpanTag list \<Rightarrow> panic + error + StringBuilder" where
  "SpanLine_tags sb [] = Inr (Inr sb)"
| "SpanLine_tags sb (tag # tags) =
     (if Key tag = [] \<or> SpanTag.Value tag = []
      then Inr (Inl (errors_New ''span tag key/value cannot be blank''))
      else
        let sb = WriteByte sb (CHR '' '');
            sb = WriteByte sb DQ
        in case sanitizeInternalSb sb (Key tag) of
             Inl p \<Rightarrow> Inl p
           | Inr sb \<Rightarrow>
               let sb = WriteByte sb DQ;
                   sb = WriteByte sb (CHR ''='');
                   sb = sanitizeValueSb sb (SpanTag.Value tag)
               in SpanLine_tags sb tags)"

definition SpanLine ::
  "string \<Rightarrow> int64 \<Rightarrow> int64 \<Rightarrow> string \<Rightarrow> string \<Rightarrow> string \<Rightarrow> string list \<Rightarrow> string list
     \<Rightarrow> SpanTag list \<Rightarrow> 'log list \<Rightarrow> string \<Rightarrow> panic + string \<times> error option" where
  "SpanLine name startMillis durationMillis source traceId spanId parents followsFrom tags
       spanLogs defaultSource =
     (if name = [] then Inr ([], Some (errors_New ''empty span name''))
      else
        let source = (if source = [] then defaultSource else source)
        in if \<not> isUUIDFormat traceId
           then Inr ([], Some (errors_New ''traceId is not in UUID format''))
           else if \<not> isUUIDFormat spanId
           then Inr ([], Some (errors_New ''spanId is not in UUID format''))
           else
             let sb = GetBuffer;
                 sb = sanitizeValueSb sb name;
                 sb = WriteString sb '' source='';
                 sb = sanitizeValueSb sb source;
                 sb = WriteString sb '' traceId='';
                 sb = WriteString sb traceId;
                 sb = WriteString sb '' spanId='';
                 sb = WriteString sb spanId;
                 sb = SpanLine_parents sb parents;
                 sb = SpanLine_followsFrom sb followsFrom;
                 sb = (if length spanLogs > 0
                       then let sb = WriteByte sb (CHR '' '');
                                sb = WriteByte sb DQ;
                                sb = WriteString sb ''_spanLogs'';
                                sb = WriteByte sb DQ;
                                sb = WriteByte sb (CHR ''='');
                                sb = WriteByte sb DQ;
                                sb = WriteString sb ''true''
                            in WriteByte sb DQ
                       else sb)
             in case SpanLine_tags sb tags of
                  Inl p \<Rightarrow> Inl p
                | Inr (Inl err) \<Rightarrow> Inr ([], Some err)
                | Inr (Inr sb) \<Rightarrow>
                    let sb = WriteByte sb (CHR '' '');
                        sb = SetBuf sb (strconv_AppendInt (GetBuf sb) startMillis);
                        sb = WriteByte sb (CHR '' '');
                        sb = SetBuf sb (strconv_AppendInt (GetBuf sb) durationMillis);
                        sb = WriteByte sb NL
                    in Inr (String sb, None))"

subsection \<open>Span logs and events\<close>


definition json_string :: "(string \<Rightarrow> string) \<Rightarrow> string \<Rightarrow> string" where
  "json_string jsonEsc s = [DQ] @ jsonEsc s @ [DQ]"

fun json_join :: "string list \<Rightarrow> string" where
  "json_join [] = []"
| "json_join [x] = x"
| "json_join (x # y # rest) = x @ '','' @ json_join (y # rest)"

definition json_strings :: "(string \<Rightarrow> string) \<Rightarrow> string list \<Rightarrow> string" where
  "json_strings jsonEsc xs = ''['' @ json_join (map (json_string jsonEsc) xs) @ '']''"

definition json_string_map :: "(string \<Rightarrow> string) \<Rightarrow> (string \<times> string) list \<Rightarrow> string" where
  "json_string_map jsonEsc m =
     ''{'' @ json_join (map (\<lambda>(k, v). json_string jsonEsc k @ '':'' @ json_string jsonEsc v)
                         (sort_key fst m)) @ ''}''"



definition adjustStartEndTime :: "int64 \<Rightarrow> int64 \<Rightarrow> int64 \<times> int64" where
  "adjustStartEndTime startMillis endMillis =
     (let startMillis = (if startMillis <s 999999999999 then startMillis * 1000 else startMillis);
          endMillis = (if endMillis \<le>s 999999999999 then endMillis * 1000 else endMillis);
          endMillis = (if endMillis = 0 then startMillis + 1 else endMillis)
      in (startMillis, endMillis))"

text \<open>
  An event encoder makes the map \<open>annotations\<close> and the map \<open>l\<close>, whose entry
  \<open>"annotations"\<close> refers to the first, and hands \<open>l\<close> to every setter. The two maps are
  the state the setters change; \<open>JAnnotations\<close> is the reference to the first map.
  A setter (type \<open>event.Option\<close>, not in the source) is any function on this state; the
  values it may store are of the kinds the encoders store, which \<open>json.Marshal\<close>
  encodes without an error.
\<close>

datatype jvalue = JString string | JInt64 int64 | JStrings "string list" | JAnnotations

record event_maps =
  annotations :: "(string \<times> string) list"
  l :: "(string \<times> jvalue) list"


fun json_value :: "(string \<Rightarrow> string) \<Rightarrow> (string \<times> string) list \<Rightarrow> jvalue \<Rightarrow> string" where
  "json_value jsonEsc ann (JString s) = json_string jsonEsc s"
| "json_value jsonEsc ann (JInt64 i) = strconv_FormatInt i"
| "json_value jsonEsc ann (JStrings xs) = json_strings jsonEsc xs"
| "json_value jsonEsc ann JAnnotations = json_string_map jsonEsc ann"

definition json_Marshal_map :: "(string \<Rightarrow> string) \<Rightarrow> event_maps \<Rightarrow> error + string" where
  "json_Marshal_map jsonEsc st =
     Inr (''{'' @ json_join (map (\<lambda>(k, v). json_string jsonEsc k @ '':''
                                    @ json_value jsonEsc (annotations st) v)
                              (sort_key fst (l st))) @ ''}'')"






section \<open>Facts about the buffer and the sanitizers\<close>

lemma WriteByte_buf [simp]: "buf (WriteByte sb c) = buf sb @ [c]"
  by (simp add: WriteByte_def)

lemma WriteString_buf [simp]: "buf (WriteString sb s) = buf sb @ s"
  by (simp add: WriteString_def)

lemma SetBuf_buf [simp]: "buf (SetBuf sb p) = p"
  by (simp add: SetBuf_def)

lemma GetBuf_buf [simp]: "GetBuf sb = buf sb"
  by (simp add: GetBuf_def)

lemma String_buf [simp]: "String sb = buf sb"
  by (simp add: String_def)

lemma GetBuffer_buf [simp]: "buf GetBuffer = []"
  by (simp add: GetBuffer_def)

lemma StringBuilder_eqI: "buf a = buf (b :: StringBuilder) \<Longrightarrow> a = b"
  by simp

lemma isLegal_iff:
  "isLegal c \<longleftrightarrow>
     (CHR '','' \<le> c \<and> c \<le> CHR ''9'') \<or> (CHR ''A'' \<le> c \<and> c \<le> CHR ''Z'')
       \<or> (CHR ''a'' \<le> c \<and> c \<le> CHR ''z'') \<or> c = CHR ''_''"
  by (auto simp: isLegal_def)

lemma isLegal_ascii: "isLegal c \<Longrightarrow> (of_char c :: nat) < 128"
  by (auto simp: isLegal_def less_eq_char_def)

lemma string_of_byte_legal: "isLegal c \<Longrightarrow> string_of_byte c = [c]"
  by (simp add: string_of_byte_def isLegal_ascii)

definition sanitized_byte :: "char \<Rightarrow> char" where
  "sanitized_byte c = (if isLegal c then c else CHR ''-'')"

lemma sanitizeInternalSb_loop_buf:
  "buf (sanitizeInternalSb_loop sb s) = buf sb @ map sanitized_byte s"
  by (induction s arbitrary: sb) (simp_all add: sanitized_byte_def)

lemma sanitizeInternal_loop_buf:
  "buf (sanitizeInternal_loop sb s) = buf sb @ map sanitized_byte s"
  by (induction s arbitrary: sb) (simp_all add: sanitized_byte_def string_of_byte_legal)

definition skipHead0 :: "string \<Rightarrow> nat" where
  "skipHead0 str =
     (if strings_HasPrefix str AltDeltaPrefix then 2
      else if strings_HasPrefix str DeltaPrefix then 3 else 0)"

definition sanitized_head :: "string \<Rightarrow> string" where
  "sanitized_head str =
     (if strings_HasPrefix str DeltaPrefix then DeltaPrefix else [])
     @ (if strings_HasPrefix str AltDeltaPrefix then AltDeltaPrefix else [])"

definition sanitized_text :: "string \<Rightarrow> string" where
  "sanitized_text str =
     sanitized_head str
     @ (if str ! skipHead0 str = CHR ''~''
        then CHR ''~'' # map sanitized_byte (drop (Suc (skipHead0 str)) str)
        else map sanitized_byte (drop (skipHead0 str) str))"

lemma HasPrefix_Nil [simp]:
  "\<not> strings_HasPrefix [] DeltaPrefix" "\<not> strings_HasPrefix [] AltDeltaPrefix"
  by (simp_all add: strings_HasPrefix_def DeltaPrefix_def AltDeltaPrefix_def)

lemma sanitizeInternal_eq:
  "sanitizeInternal str =
     (if length str \<le> skipHead0 str then Inl (IndexOutOfRange (skipHead0 str) (length str))
      else Inr (sanitized_text str))"
  by (simp add: sanitizeInternal_def skipHead0_def sanitized_text_def sanitized_head_def
      sanitizeInternal_loop_buf Let_def)

lemma sanitizeInternalSb_eq:
  "sanitizeInternalSb sb str =
     (if length str \<le> skipHead0 str then Inl (IndexOutOfRange (skipHead0 str) (length str))
      else Inr (sb\<lparr>buf := buf sb @ sanitized_text str\<rparr>))"
  by (auto simp: sanitizeInternalSb_def skipHead0_def sanitized_text_def sanitized_head_def
      Let_def intro!: StringBuilder_eqI simp: sanitizeInternalSb_loop_buf)

lemma sanitizeInternalSb_sanitizeInternal:
  "sanitizeInternalSb sb str =
     (case sanitizeInternal str of Inl p \<Rightarrow> Inl p | Inr t \<Rightarrow> Inr (sb\<lparr>buf := buf sb @ t\<rparr>))"
  by (simp add: sanitizeInternalSb_eq sanitizeInternal_eq)

lemma skipHead0_range_iff:
  "length str \<le> skipHead0 str \<longleftrightarrow> str = [] \<or> str = DeltaPrefix \<or> str = AltDeltaPrefix"
proof -
  have a: "prefix p s \<Longrightarrow> length s \<le> length p \<Longrightarrow> s = p" for p s :: string
    by (auto simp: prefix_def)
  show ?thesis
    using a [of AltDeltaPrefix str] a [of DeltaPrefix str]
    by (auto simp: skipHead0_def strings_HasPrefix_def DeltaPrefix_def AltDeltaPrefix_def)
qed

lemma sanitizeValueSb_sanitizeValue:
  "sanitizeValueSb sb str = sb\<lparr>buf := buf sb @ sanitizeValue str\<rparr>"
  by (simp add: sanitizeValueSb_def sanitizeValue_def Let_def WriteByte_def WriteString_def)

lemma sanitizeValue_last: "sanitizeValue str \<noteq> [] \<and> last (sanitizeValue str) = DQ"
  by (simp add: sanitizeValue_def Let_def)

lemma sanitizeValue_hd: "hd (sanitizeValue str) = DQ"
  by (simp add: sanitizeValue_def Let_def)

section \<open>What the encoders write\<close>

text \<open>
  The tag loops of the three line encoders differ in the error text and in whether an
  empty key is refused. \<open>tags_outcome\<close> is what such a loop does to the buffer: it
  panics, returns an error, or appends a text.
\<close>

fun tags_outcome :: "bool \<Rightarrow> string \<Rightarrow> (string \<times> string) list \<Rightarrow> panic + error + string" where
  "tags_outcome keyCheck msg [] = Inr (Inr [])"
| "tags_outcome keyCheck msg ((k, v) # tags) =
     (if (keyCheck \<and> k = []) \<or> v = [] then Inr (Inl (errors_New msg))
      else if length k \<le> skipHead0 k then Inl (IndexOutOfRange (skipHead0 k) (length k))
      else case tags_outcome keyCheck msg tags of
             Inl p \<Rightarrow> Inl p
           | Inr (Inl err) \<Rightarrow> Inr (Inl err)
           | Inr (Inr s) \<Rightarrow>
               Inr (Inr ([CHR '' '', DQ] @ sanitized_text k @ [DQ, CHR ''='']
                         @ sanitizeValue v @ s)))"

definition lift_outcome :: "StringBuilder \<Rightarrow> panic + error + string \<Rightarrow> panic + error + StringBuilder"
  where
  "lift_outcome sb r =
     (case r of Inl p \<Rightarrow> Inl p | Inr (Inl err) \<Rightarrow> Inr (Inl err)
      | Inr (Inr s) \<Rightarrow> Inr (Inr (sb\<lparr>buf := buf sb @ s\<rparr>)))"

lemma MetricLine_tags_eq:
  "MetricLine_tags sb tags =
     lift_outcome sb (tags_outcome False ''metric point tag value cannot be blank'' tags)"
proof (induction tags arbitrary: sb)
  case Nil
  show ?case by (simp add: lift_outcome_def)
next
  case (Cons kv tags)
  obtain k v where kv: "kv = (k, v)" by (cases kv)
  show ?case
    unfolding kv
    by (simp add: Cons.IH sanitizeInternalSb_eq sanitizeValueSb_sanitizeValue Let_def
        lift_outcome_def split: sum.splits)
qed

lemma HistoLine_tags_eq:
  "HistoLine_tags sb tags =
     lift_outcome sb (tags_outcome False ''histogram tag value cannot be blank'' tags)"
proof (induction tags arbitrary: sb)
  case Nil
  show ?case by (simp add: lift_outcome_def)
next
  case (Cons kv tags)
  obtain k v where kv: "kv = (k, v)" by (cases kv)
  show ?case
    unfolding kv
    by (simp add: Cons.IH sanitizeInternalSb_eq sanitizeValueSb_sanitizeValue Let_def
        lift_outcome_def split: sum.splits)
qed

lemma SpanLine_tags_eq:
  "SpanLine_tags sb tags =
     lift_outcome sb (tags_outcome True ''span tag key/value cannot be blank''
                        (map (\<lambda>tag. (Key tag, SpanTag.Value tag)) tags))"
proof (induction tags arbitrary: sb)
  case Nil
  show ?case by (simp add: lift_outcome_def)
next
  case (Cons tag tags)
  show ?case
    by (simp add: Cons.IH sanitizeInternalSb_eq sanitizeValueSb_sanitizeValue Let_def
        lift_outcome_def split: sum.splits)
qed


lemma tags_outcome_ok:
  "tags_outcome keyCheck msg tags = Inr (Inr s) \<Longrightarrow>
     (\<forall>(k, v) \<in> set tags. v \<noteq> [] \<and> skipHead0 k < length k)"
  by (induction tags arbitrary: s) (auto split: if_splits sum.splits)

lemma tags_outcome_success:
  "(\<forall>(k, v) \<in> set tags. v \<noteq> [] \<and> skipHead0 k < length k) \<Longrightarrow>
     \<exists>s. tags_outcome keyCheck msg tags = Inr (Inr s)"
  by (induction tags) (auto split: if_splits sum.splits)

lemma tags_outcome_error:
  "tags_outcome keyCheck msg tags = Inr (Inl err) \<Longrightarrow> err = errors_New msg"
  by (induction tags) (auto split: if_splits sum.splits)

definition ts_text :: "int64 \<Rightarrow> string" where
  "ts_text ts = (if ts \<noteq> 0 then CHR '' '' # strconv_FormatInt ts else [])"

definition centroids_text :: "('f \<Rightarrow> string) \<Rightarrow> 'f Centroid list \<Rightarrow> string" where
  "centroids_text fmt cs =
     concat (map (\<lambda>c. '' #'' @ strconv_FormatInt (Count c) @ '' '' @ fmt (Centroid.Value c)) cs)"

definition links_text :: "string list \<Rightarrow> string list \<Rightarrow> string" where
  "links_text parents followsFrom =
     concat (map (\<lambda>parent. '' parent='' @ parent) parents)
     @ concat (map (\<lambda>item. '' followsFrom='' @ item) followsFrom)"

definition enabled_lines :: "('g \<Rightarrow> string) \<Rightarrow> string \<Rightarrow> ('g \<times> bool) list \<Rightarrow> string list" where
  "enabled_lines hgString body hgs =
     map (\<lambda>(hg, on). hgString hg @ body @ [NL]) (filter snd hgs)"

lemma HistoLine_centroids_buf:
  "buf (HistoLine_centroids fmt sb cs) = buf sb @ centroids_text fmt cs"
  by (induction cs arbitrary: sb)
     (simp_all add: centroids_text_def strconv_AppendInt_def strconv_AppendFloat_def)

lemma HistoLine_hgs_eq:
  "HistoLine_hgs hgString sbg sbBytes hgs = sbg @ concat (enabled_lines hgString sbBytes hgs)"
  by (induction hgs arbitrary: sbg) (auto simp: enabled_lines_def)

lemma SpanLine_parents_buf:
  "buf (SpanLine_parents sb parents) = buf sb @ concat (map (\<lambda>parent. '' parent='' @ parent) parents)"
  by (induction parents arbitrary: sb) simp_all

lemma SpanLine_followsFrom_buf:
  "buf (SpanLine_followsFrom sb followsFrom)
     = buf sb @ concat (map (\<lambda>item. '' followsFrom='' @ item) followsFrom)"
  by (induction followsFrom arbitrary: sb) simp_all

lemma MetricLine_eq:
  "MetricLine fmt name val ts source tags defaultSource =
     (if name = [] then Inr ([], Some (errors_New ''empty metric name''))
      else if length name \<le> skipHead0 name
      then Inl (IndexOutOfRange (skipHead0 name) (length name))
      else case tags_outcome False ''metric point tag value cannot be blank'' tags of
             Inl p \<Rightarrow> Inl p
           | Inr (Inl err) \<Rightarrow> Inr ([], Some err)
           | Inr (Inr s) \<Rightarrow>
               Inr ([DQ] @ sanitized_text name @ [DQ, CHR '' ''] @ fmt val @ ts_text ts
                    @ '' source='' @ sanitizeValue (if source = [] then defaultSource else source)
                    @ s @ [NL], None))"
  by (simp add: MetricLine_def MetricLine_tags_eq lift_outcome_def sanitizeInternalSb_eq
      sanitizeValueSb_sanitizeValue Let_def ts_text_def strconv_AppendInt_def
      strconv_AppendFloat_def split: sum.splits)

lemma HistoLine_eq:
  "HistoLine fmt compact hgString name centroids hgs ts source tags defaultSource =
     (if name = [] then Inr ([], Some (errors_New ''empty distribution name''))
      else if centroids = []
      then Inr ([], Some (errors_New ''distribution should have at least one centroid''))
      else if hgs = []
      then Inr ([], Some (errors_New ''histogram granularities cannot be empty''))
      else if length name \<le> skipHead0 name
      then Inl (IndexOutOfRange (skipHead0 name) (length name))
      else case tags_outcome False ''histogram tag value cannot be blank'' tags of
             Inl p \<Rightarrow> Inl p
           | Inr (Inl err) \<Rightarrow> Inr ([], Some err)
           | Inr (Inr s) \<Rightarrow>
               Inr (concat (enabled_lines hgString
                      (ts_text ts @ centroids_text fmt (compact centroids) @ [CHR '' '', DQ]
                       @ sanitized_text name @ [DQ] @ '' source=''
                       @ sanitizeValue (if source = [] then defaultSource else source) @ s)
                      hgs), None))"
  by (simp add: HistoLine_def HistoLine_tags_eq lift_outcome_def sanitizeInternalSb_eq
      sanitizeValueSb_sanitizeValue Let_def ts_text_def strconv_AppendInt_def
      HistoLine_centroids_buf HistoLine_hgs_eq split: sum.splits)

lemma SpanLine_eq:
  "SpanLine name startMillis durationMillis source traceId spanId parents followsFrom tags
       spanLogs defaultSource =
     (if name = [] then Inr ([], Some (errors_New ''empty span name''))
      else if \<not> isUUIDFormat traceId
      then Inr ([], Some (errors_New ''traceId is not in UUID format''))
      else if \<not> isUUIDFormat spanId
      then Inr ([], Some (errors_New ''spanId is not in UUID format''))
      else case tags_outcome True ''span tag key/value cannot be blank''
                  (map (\<lambda>tag. (Key tag, SpanTag.Value tag)) tags) of
             Inl p \<Rightarrow> Inl p
           | Inr (Inl err) \<Rightarrow> Inr ([], Some err)
           | Inr (Inr s) \<Rightarrow>
               Inr (sanitizeValue name @ '' source=''
                    @ sanitizeValue (if source = [] then defaultSource else source)
                    @ '' traceId='' @ traceId @ '' spanId='' @ spanId
                    @ links_text parents followsFrom
                    @ (if spanLogs \<noteq> [] then [CHR '' '', DQ] @ ''_spanLogs'' @ [DQ, CHR ''='', DQ]
                                              @ ''true'' @ [DQ] else [])
                    @ s @ CHR '' '' # strconv_FormatInt startMillis
                    @ CHR '' '' # strconv_FormatInt durationMillis @ [NL], None))"
  by (simp add: SpanLine_def SpanLine_tags_eq lift_outcome_def
      sanitizeValueSb_sanitizeValue Let_def strconv_AppendInt_def links_text_def
      SpanLine_parents_buf SpanLine_followsFrom_buf split: sum.splits)

section \<open>Concrete library values for examples\<close>

text \<open>
  For a float64 that is an integer of magnitude below \<open>2 ^ 53\<close>, the text
  \<open>strconv\<close> gives in format \<open>'f'\<close> with precision -1 is the decimal integer itself
  (42422.0 is written 42422). \<open>FormatFloat_integral\<close> is that text, on the integers;
  it serves where an example needs a concrete \<open>fmt\<close>.
\<close>

definition FormatFloat_integral :: "int \<Rightarrow> string" where
  "FormatFloat_integral i =
     (if i < 0 then CHR ''-'' # decimal_digits (nat (- i)) else decimal_digits (nat i))"

text \<open>
  Modelled from the spec: the type \<open>Granularity\<close> of package \<open>histogram\<close> and its
  \<open>String\<close> method are not in the source. The spec names minute, hour and day, and
  the comment of \<open>HistoLine\<close> gives the wire tokens \<open>!M\<close>, \<open>!H\<close> and \<open>!D\<close>.
\<close>

datatype Granularity = MINUTE | HOUR | DAY

fun Granularity_String :: "Granularity \<Rightarrow> string" where
  "Granularity_String MINUTE = ''!M''"
| "Granularity_String HOUR = ''!H''"
| "Granularity_String DAY = ''!D''"

section \<open>The properties the specification states\<close>

lemma sanitizeValue_localhost: "sanitizeValue ''localhost'' = [DQ] @ ''localhost'' @ [DQ]"
  by code_simp

lemma sanitizeValue_dc1: "sanitizeValue ''dc1'' = [DQ] @ ''dc1'' @ [DQ]"
  by code_simp

lemma skipHead0_plain:
  "\<not> strings_HasPrefix str DeltaPrefix \<Longrightarrow> \<not> strings_HasPrefix str AltDeltaPrefix
     \<Longrightarrow> skipHead0 str = 0"
  by (simp add: skipHead0_def)

lemma sanitized_text_plain:
  "str \<noteq> [] \<Longrightarrow> \<not> strings_HasPrefix str DeltaPrefix \<Longrightarrow> \<not> strings_HasPrefix str AltDeltaPrefix
     \<Longrightarrow> hd str \<noteq> CHR ''~'' \<Longrightarrow> sanitized_text str = map sanitized_byte str"
  by (simp add: sanitized_text_def sanitized_head_def skipHead0_def hd_conv_nth)

text \<open>
  C1. \<open>MetricLine("cpu.usage", 42422.0, 1533531013, "", {"datacenter": "dc1"}, "localhost")\<close>
  succeeds and returns the name, the value, the timestamp, the source and the tag in
  this order, the empty source replaced by the default source, and one newline at the
  end. The text of the value 42422.0 is \<open>strconv\<close>'s: the hypothesis says it is 42422.
\<close>

theorem C1_MetricLine_example:
  assumes "fmt val = ''42422''"
  shows \<open>MetricLine fmt ''cpu.usage'' val 1533531013 [] [(''datacenter'', ''dc1'')] ''localhost''
           = Inr (''"cpu.usage" 42422 1533531013 source="localhost" "datacenter"="dc1"'' @ [NL],
                  None)\<close>
proof -
  have p: "\<not> strings_HasPrefix ''cpu.usage'' DeltaPrefix"
      "\<not> strings_HasPrefix ''cpu.usage'' AltDeltaPrefix"
      "\<not> strings_HasPrefix ''datacenter'' DeltaPrefix"
      "\<not> strings_HasPrefix ''datacenter'' AltDeltaPrefix"
    by (simp_all add: strings_HasPrefix_def DeltaPrefix_def AltDeltaPrefix_def)
  have n: "sanitized_text ''cpu.usage'' = ''cpu.usage''"
    by (subst sanitized_text_plain) (simp_all add: p sanitized_byte_def isLegal_def)
  have k: "sanitized_text ''datacenter'' = ''datacenter''"
    by (subst sanitized_text_plain) (simp_all add: p sanitized_byte_def isLegal_def)
  have t: "ts_text 1533531013 = '' 1533531013''"
    by (simp add: ts_text_def strconv_FormatInt_def decimal_digits.simps digit_char_def)
  show ?thesis
    by (simp add: MetricLine_eq skipHead0_plain p n k t assms sanitizeValue_localhost
        sanitizeValue_dc1)
qed

theorem C1_MetricLine_example_witness:
  \<open>FormatFloat_integral 42422 = ''42422'' \<and>
   MetricLine FormatFloat_integral ''cpu.usage'' 42422 1533531013 []
       [(''datacenter'', ''dc1'')] ''localhost''
     = Inr (''"cpu.usage" 42422 1533531013 source="localhost" "datacenter"="dc1"'' @ [NL], None)\<close>
proof -
  have h: "FormatFloat_integral 42422 = ''42422''"
    by (simp add: FormatFloat_integral_def decimal_digits.simps digit_char_def)
  from h C1_MetricLine_example [of FormatFloat_integral 42422] show ?thesis by simp
qed

text \<open>
  C2. The claim is that identifier sanitization produces an output for every string,
  the empty string and a bare delta marker included. The code reads \<open>str[skipHead]\<close>
  without a bound check: on the empty string and on a string that is only the delta
  marker both \<open>sanitizeInternal\<close> and \<open>sanitizeInternalSb\<close> panic.
\<close>

theorem C2_sanitizeInternal_out_of_range:
  "sanitizeInternal [] = Inl (IndexOutOfRange 0 0)
   \<and> sanitizeInternalSb GetBuffer [] = Inl (IndexOutOfRange 0 0)
   \<and> sanitizeInternal DeltaPrefix = Inl (IndexOutOfRange 3 3)
   \<and> sanitizeInternalSb GetBuffer DeltaPrefix = Inl (IndexOutOfRange 3 3)"
  by (simp add: sanitizeInternal_def sanitizeInternalSb_def strings_HasPrefix_def
      DeltaPrefix_def AltDeltaPrefix_def)

text \<open>
  C3. For a non-empty string that starts with neither delta marker nor a tilde,
  identifier sanitization keeps a byte exactly when it lies between \<open>','\<close> and \<open>'9'\<close>,
  between \<open>'A'\<close> and \<open>'Z'\<close>, between \<open>'a'\<close> and \<open>'z'\<close>, or is \<open>'_'\<close>, and writes one
  \<open>'-'\<close> for every other byte; \<open>"my metric!"\<close> becomes \<open>"my-metric-"\<close>.
\<close>

theorem C3_sanitize_plain:
  assumes "str \<noteq> []"
    and "\<not> strings_HasPrefix str DeltaPrefix" and "\<not> strings_HasPrefix str AltDeltaPrefix"
    and "hd str \<noteq> CHR ''~''"
  shows "sanitizeInternal str
           = Inr (map (\<lambda>c. if (CHR '','' \<le> c \<and> c \<le> CHR ''9'') \<or> (CHR ''A'' \<le> c \<and> c \<le> CHR ''Z'')
                              \<or> (CHR ''a'' \<le> c \<and> c \<le> CHR ''z'') \<or> c = CHR ''_''
                           then c else CHR ''-'') str)
         \<and> sanitizeInternalSb sb str
           = Inr (sb\<lparr>buf := buf sb
                  @ map (\<lambda>c. if (CHR '','' \<le> c \<and> c \<le> CHR ''9'') \<or> (CHR ''A'' \<le> c \<and> c \<le> CHR ''Z'')
                              \<or> (CHR ''a'' \<le> c \<and> c \<le> CHR ''z'') \<or> c = CHR ''_''
                           then c else CHR ''-'') str\<rparr>)
         \<and> sanitizeInternal ''my metric!'' = Inr ''my-metric-''"
proof -
  have m: "sanitized_byte = (\<lambda>c. if (CHR '','' \<le> c \<and> c \<le> CHR ''9'') \<or> (CHR ''A'' \<le> c \<and> c \<le> CHR ''Z'')
                              \<or> (CHR ''a'' \<le> c \<and> c \<le> CHR ''z'') \<or> c = CHR ''_''
                           then c else CHR ''-'')"
    by (rule ext) (simp add: sanitized_byte_def isLegal_iff)
  have e: "sanitizeInternal ''my metric!'' = Inr ''my-metric-''"
    by (simp add: sanitizeInternal_def strings_HasPrefix_def DeltaPrefix_def AltDeltaPrefix_def
        sanitizeInternal_loop.simps string_of_byte_def isLegal_def WriteString_def
        WriteByte_def GetBuffer_def)
  from assms have r: "length str > skipHead0 str"
    by (simp add: skipHead0_plain)
  from assms have t: "sanitized_text str = map sanitized_byte str"
    by (rule sanitized_text_plain)
  from r t have "sanitizeInternal str = Inr (map sanitized_byte str)"
    by (simp add: sanitizeInternal_eq)
  moreover from r t have "sanitizeInternalSb sb str = Inr (sb\<lparr>buf := buf sb @ map sanitized_byte str\<rparr>)"
    by (simp add: sanitizeInternalSb_eq)
  ultimately show ?thesis
    using e unfolding m by (intro conjI)
qed

theorem C3_sanitize_plain_witness:
  "''a b/C_9~!'' \<noteq> [] \<and> \<not> strings_HasPrefix ''a b/C_9~!'' DeltaPrefix
   \<and> \<not> strings_HasPrefix ''a b/C_9~!'' AltDeltaPrefix \<and> hd ''a b/C_9~!'' \<noteq> CHR ''~''
   \<and> sanitizeInternal ''a b/C_9~!'' = Inr ''a-b/C_9--''
   \<and> sanitizeInternalSb GetBuffer ''a b/C_9~!'' = Inr \<lparr>buf = ''a-b/C_9--''\<rparr>
   \<and> sanitizeInternal ''my metric!'' = Inr ''my-metric-''"
proof -
  have h: "''a b/C_9~!'' \<noteq> []" "\<not> strings_HasPrefix ''a b/C_9~!'' DeltaPrefix"
    "\<not> strings_HasPrefix ''a b/C_9~!'' AltDeltaPrefix" "hd ''a b/C_9~!'' \<noteq> CHR ''~''"
    by (simp_all add: strings_HasPrefix_def DeltaPrefix_def AltDeltaPrefix_def)
  from h C3_sanitize_plain [OF h, of GetBuffer] show ?thesis
    by (simp add: GetBuffer_def)
qed

lemma enabled_lines_all_off:
  "\<forall>(hg, on) \<in> set hgs. \<not> on \<Longrightarrow> enabled_lines hgString body hgs = []"
  by (induction hgs) (auto simp: enabled_lines_def)

lemma skipHead0_in_range:
  "str \<notin> {[], DeltaPrefix, AltDeltaPrefix} \<Longrightarrow> \<not> length str \<le> skipHead0 str"
  by (simp add: skipHead0_range_iff)

lemma tags_outcome_success_markers:
  assumes "\<forall>(k, v) \<in> set tags. v \<noteq> [] \<and> k \<notin> {[], DeltaPrefix, AltDeltaPrefix}"
  shows "\<exists>s. tags_outcome False msg tags = Inr (Inr s)"
proof (rule tags_outcome_success)
  from assms show "\<forall>(k, v) \<in> set tags. v \<noteq> [] \<and> skipHead0 k < length k"
    using skipHead0_range_iff by fastforce
qed

text \<open>
  The preconditions of \<open>HistoLine\<close>, on the calls where the sanitizer stays in range.
  \<open>HistoLine\<close> returns an error when the centroid sequence is empty (with the text
  "distribution should have at least one centroid" when the name is not empty, the name
  being checked first) and when the granularity set is empty. It returns the empty
  string and no error when the granularity set is non-empty and every flag is false,
  the name is neither empty nor a bare delta marker, there is at least one centroid,
  and every tag has a non-empty value and a key that is neither empty nor a bare delta
  marker.
\<close>

theorem HistoLine_preconditions:
  "(centroids = [] \<longrightarrow>
      (\<exists>err. HistoLine fmt compact hgString name centroids hgs ts source tags defaultSource
                = Inr ([], Some err))
      \<and> (name \<noteq> [] \<longrightarrow>
           HistoLine fmt compact hgString name centroids hgs ts source tags defaultSource
             = Inr ([], Some (errors_New ''distribution should have at least one centroid''))))
   \<and> (hgs = [] \<longrightarrow>
      (\<exists>err. HistoLine fmt compact hgString name centroids hgs ts source tags defaultSource
                = Inr ([], Some err)))
   \<and> (hgs \<noteq> [] \<and> (\<forall>(hg, on) \<in> set hgs. \<not> on)
        \<and> name \<notin> {[], DeltaPrefix, AltDeltaPrefix} \<and> centroids \<noteq> []
        \<and> (\<forall>(k, v) \<in> set tags. v \<noteq> [] \<and> k \<notin> {[], DeltaPrefix, AltDeltaPrefix}) \<longrightarrow>
      HistoLine fmt compact hgString name centroids hgs ts source tags defaultSource
        = Inr ([], None))"
proof (intro conjI impI)
  assume "centroids = []"
  then show "\<exists>err. HistoLine fmt compact hgString name centroids hgs ts source tags defaultSource
                = Inr ([], Some err)"
    by (simp add: HistoLine_def)
next
  assume "centroids = []" "name \<noteq> []"
  then show "HistoLine fmt compact hgString name centroids hgs ts source tags defaultSource
             = Inr ([], Some (errors_New ''distribution should have at least one centroid''))"
    by (simp add: HistoLine_def)
next
  assume "hgs = []"
  then show "\<exists>err. HistoLine fmt compact hgString name centroids hgs ts source tags defaultSource
                = Inr ([], Some err)"
    by (simp add: HistoLine_def)
next
  assume a: "hgs \<noteq> [] \<and> (\<forall>(hg, on) \<in> set hgs. \<not> on)
        \<and> name \<notin> {[], DeltaPrefix, AltDeltaPrefix} \<and> centroids \<noteq> []
        \<and> (\<forall>(k, v) \<in> set tags. v \<noteq> [] \<and> k \<notin> {[], DeltaPrefix, AltDeltaPrefix})"
  then have t: "\<forall>(k, v) \<in> set tags. v \<noteq> [] \<and> k \<notin> {[], DeltaPrefix, AltDeltaPrefix}"
    and nm: "name \<notin> {[], DeltaPrefix, AltDeltaPrefix}"
    and fl: "\<forall>(hg, on) \<in> set hgs. \<not> on"
    by simp_all
  from tags_outcome_success_markers [OF t, of "''histogram tag value cannot be blank''"]
  obtain s where
    s: "tags_outcome False ''histogram tag value cannot be blank'' tags = Inr (Inr s)" ..
  from nm have n: "\<not> length name \<le> skipHead0 name"
    by (rule skipHead0_in_range)
  from nm have n0: "name \<noteq> []"
    by simp
  from fl have off: "enabled_lines hgString body hgs = []" for body
    by (rule enabled_lines_all_off)
  from a n n0 s show "HistoLine fmt compact hgString name centroids hgs ts source tags defaultSource
        = Inr ([], None)"
    by (simp add: HistoLine_eq off)
qed

theorem HistoLine_preconditions_witness:
  "HistoLine FormatFloat_integral (\<lambda>cs. cs) Granularity_String ''m'' []
       [(MINUTE, True)] 0 ''s'' [(''k'', ''v'')] ''d''
     = Inr ([], Some (errors_New ''distribution should have at least one centroid''))
   \<and> (\<exists>err. HistoLine FormatFloat_integral (\<lambda>cs. cs) Granularity_String ''m''
              [\<lparr>Centroid.Value = 7, Count = 1\<rparr>] [] 0 ''s'' [(''k'', ''v'')] ''d''
            = Inr ([], Some err))
   \<and> HistoLine FormatFloat_integral (\<lambda>cs. cs) Granularity_String ''m''
       [\<lparr>Centroid.Value = 7, Count = 1\<rparr>] [(MINUTE, False), (DAY, False)] 0 ''s''
       [(''k'', ''v'')] ''d''
     = Inr ([], None)"
proof (intro conjI)
  have m: "''m'' \<notin> {[], DeltaPrefix, AltDeltaPrefix}" "''k'' \<notin> {[], DeltaPrefix, AltDeltaPrefix}"
    by (simp_all add: DeltaPrefix_def AltDeltaPrefix_def)
  show "HistoLine FormatFloat_integral (\<lambda>cs. cs) Granularity_String ''m'' []
       [(MINUTE, True)] 0 ''s'' [(''k'', ''v'')] ''d''
     = Inr ([], Some (errors_New ''distribution should have at least one centroid''))"
    by (rule HistoLine_preconditions [THEN conjunct1, THEN mp, THEN conjunct2, THEN mp])
       simp_all
  show "\<exists>err. HistoLine FormatFloat_integral (\<lambda>cs. cs) Granularity_String ''m''
              [\<lparr>Centroid.Value = 7, Count = 1\<rparr>] [] 0 ''s'' [(''k'', ''v'')] ''d''
            = Inr ([], Some err)"
    by (rule HistoLine_preconditions [THEN conjunct2, THEN conjunct1, THEN mp]) simp
  show "HistoLine FormatFloat_integral (\<lambda>cs. cs) Granularity_String ''m''
       [\<lparr>Centroid.Value = 7, Count = 1\<rparr>] [(MINUTE, False), (DAY, False)] 0 ''s''
       [(''k'', ''v'')] ''d''
     = Inr ([], None)"
    by (rule HistoLine_preconditions [THEN conjunct2, THEN conjunct2, THEN mp])
       (simp add: DeltaPrefix_def AltDeltaPrefix_def)
qed

lemma isUUIDFormat_example: "isUUIDFormat ''7b3bf470-9456-11e8-9eb6-529269fb1459''"
  by code_simp

lemma skipHead0_DeltaPrefix: "skipHead0 DeltaPrefix = 3"
  by (simp add: skipHead0_def strings_HasPrefix_def DeltaPrefix_def AltDeltaPrefix_def)

text \<open>
  C4. The claim is that \<open>HistoLine\<close> succeeds and returns the empty string when the
  granularity set is non-empty and every flag is false. Here the name is not empty,
  there is one centroid, the set holds one granularity with a false flag, and no tag
  value is blank, so no error of \<open>HistoLine\<close> applies. In the first call the name is
  a bare delta marker, in the second the key of the tag is empty: \<open>HistoLine\<close> does
  not return, it panics in \<open>sanitizeInternalSb\<close> at \<open>str[skipHead]\<close>.
\<close>

theorem C4_HistoLine_panics_all_flags_false:
  "HistoLine FormatFloat_integral (\<lambda>cs. cs) Granularity_String DeltaPrefix
       [\<lparr>Centroid.Value = 7, Count = 1\<rparr>] [(MINUTE, False)] 0 ''s'' [(''k'', ''v'')] ''d''
     = Inl (IndexOutOfRange 3 3)
   \<and> HistoLine FormatFloat_integral (\<lambda>cs. cs) Granularity_String ''m''
       [\<lparr>Centroid.Value = 7, Count = 1\<rparr>] [(MINUTE, False)] 0 ''s'' [([], ''v'')] ''d''
     = Inl (IndexOutOfRange 0 0)"
proof -
  have d: "DeltaPrefix \<noteq> []" "length DeltaPrefix = 3"
    by (simp_all add: DeltaPrefix_def)
  have e: "skipHead0 [] = 0"
    by (simp add: skipHead0_def)
  have m: "skipHead0 ''m'' = 0"
    by (simp add: skipHead0_def strings_HasPrefix_def DeltaPrefix_def AltDeltaPrefix_def)
  show ?thesis
    by (simp add: HistoLine_eq skipHead0_DeltaPrefix m d e)
qed

text \<open>
  C5. The claim is that \<open>SpanLine\<close> returns an error exactly when the name is empty,
  an ID is not in UUID format, or some tag has an empty key or value. Here the second
  tag has an empty value, yet \<open>SpanLine\<close> returns no error: it panics while it
  sanitizes the key of the first tag, which is a bare delta marker.
\<close>

theorem C5_SpanLine_panics_before_blank_tag:
  "SpanLine ''op'' 1 2 ''s'' ''7b3bf470-9456-11e8-9eb6-529269fb1459''
       ''7b3bf470-9456-11e8-9eb6-529269fb1459'' [] []
       [\<lparr>Key = DeltaPrefix, Value = ''v''\<rparr>, \<lparr>Key = ''k'', Value = []\<rparr>] ([] :: unit list) ''d''
     = Inl (IndexOutOfRange 3 3)"
proof -
  have d: "DeltaPrefix \<noteq> []" "length DeltaPrefix = 3"
    by (simp_all add: DeltaPrefix_def)
  show ?thesis
    by (simp add: SpanLine_eq isUUIDFormat_example skipHead0_DeltaPrefix d)
qed

text \<open>
  C6. The claim is that a start value up to and including 999999999999 is multiplied by
  1000, as an end value is. The code compares the start with \<open><\<close> and the end with
  \<open><=\<close>: the start 999999999999 is left as it is, the end 999999999999 is multiplied.
\<close>

theorem C6_adjustStartEndTime_start_boundary:
  "adjustStartEndTime 999999999999 5 = (999999999999, 5000)
   \<and> adjustStartEndTime 5 999999999999 = (5000, 999999999999000)
   \<and> adjustStartEndTime 1533531013 0 = (1533531013000, 1533531013001)"
  by (simp add: adjustStartEndTime_def)

lemma json_Marshal_map_Inr: "\<exists>s. json_Marshal_map jsonEsc st = Inr s"
  by (simp add: json_Marshal_map_def)





lemma sanitizeValue_s: "sanitizeValue ''s'' = [DQ, CHR ''s'', DQ]"
  by code_simp






lemma sanitizeValue_op: "sanitizeValue ''op'' = [DQ] @ ''op'' @ [DQ]"
  by code_simp

text \<open>
  C10. \<open>SpanLine\<close> writes every parent ID and every followsFrom ID as it is, after
  \<open>" parent="\<close> or \<open>" followsFrom="\<close>, right after the span ID; it neither sanitizes nor
  validates them. Whether \<open>SpanLine\<close> returns an error (or panics), and which, does not
  depend on the two lists: two calls that differ only in them fail alike.
\<close>

theorem C10_SpanLine_parents_verbatim:
  "((SpanLine name startMillis durationMillis source traceId spanId parents followsFrom tags
        spanLogs defaultSource = Inr (out, Some err))
     = (SpanLine name startMillis durationMillis source traceId spanId parents' followsFrom' tags
        spanLogs defaultSource = Inr (out, Some err)))
   \<and> ((SpanLine name startMillis durationMillis source traceId spanId parents followsFrom tags
        spanLogs defaultSource = Inl p)
     = (SpanLine name startMillis durationMillis source traceId spanId parents' followsFrom' tags
        spanLogs defaultSource = Inl p))
   \<and> (SpanLine name startMillis durationMillis source traceId spanId parents followsFrom tags
        spanLogs defaultSource = Inr (out, None) \<longrightarrow>
      (\<exists>rest. out = sanitizeValue name @ '' source=''
                 @ sanitizeValue (if source = [] then defaultSource else source)
                 @ '' traceId='' @ traceId @ '' spanId='' @ spanId
                 @ concat (map (\<lambda>parent. '' parent='' @ parent) parents)
                 @ concat (map (\<lambda>item. '' followsFrom='' @ item) followsFrom)
                 @ rest))"
proof (intro conjI impI)
  show "(SpanLine name startMillis durationMillis source traceId spanId parents followsFrom tags
        spanLogs defaultSource = Inr (out, Some err))
     = (SpanLine name startMillis durationMillis source traceId spanId parents' followsFrom' tags
        spanLogs defaultSource = Inr (out, Some err))"
    by (simp add: SpanLine_eq split: sum.splits)
  show "(SpanLine name startMillis durationMillis source traceId spanId parents followsFrom tags
        spanLogs defaultSource = Inl p)
     = (SpanLine name startMillis durationMillis source traceId spanId parents' followsFrom' tags
        spanLogs defaultSource = Inl p)"
    by (simp add: SpanLine_eq split: sum.splits)
next
  assume "SpanLine name startMillis durationMillis source traceId spanId parents followsFrom tags
        spanLogs defaultSource = Inr (out, None)"
  then show "\<exists>rest. out = sanitizeValue name @ '' source=''
                 @ sanitizeValue (if source = [] then defaultSource else source)
                 @ '' traceId='' @ traceId @ '' spanId='' @ spanId
                 @ concat (map (\<lambda>parent. '' parent='' @ parent) parents)
                 @ concat (map (\<lambda>item. '' followsFrom='' @ item) followsFrom)
                 @ rest"
    by (auto simp: SpanLine_eq links_text_def split: if_splits sum.splits)
qed

theorem C10_SpanLine_parents_verbatim_witness:
  \<open>SpanLine ''op'' 1 2 ''s'' ''7b3bf470-9456-11e8-9eb6-529269fb1459''
       ''7b3bf470-9456-11e8-9eb6-529269fb1459'' [''not a "uuid"''] [''x'' @ [NL]] []
       ([] :: unit list) ''d''
     = Inr (''"op" source="s" traceId=7b3bf470-9456-11e8-9eb6-529269fb1459''
            @ '' spanId=7b3bf470-9456-11e8-9eb6-529269fb1459 parent=not a "uuid"''
            @ '' followsFrom=x'' @ [NL] @ '' 1 2'' @ [NL], None)
   \<and> (\<exists>rest. ''"op" source="s" traceId=7b3bf470-9456-11e8-9eb6-529269fb1459''
            @ '' spanId=7b3bf470-9456-11e8-9eb6-529269fb1459 parent=not a "uuid"''
            @ '' followsFrom=x'' @ [NL] @ '' 1 2'' @ [NL]
          = sanitizeValue ''op'' @ '' source='' @ sanitizeValue ''s''
            @ '' traceId='' @ ''7b3bf470-9456-11e8-9eb6-529269fb1459''
            @ '' spanId='' @ ''7b3bf470-9456-11e8-9eb6-529269fb1459''
            @ concat (map (\<lambda>parent. '' parent='' @ parent) [''not a "uuid"''])
            @ concat (map (\<lambda>item. '' followsFrom='' @ item) [''x'' @ [NL]])
            @ rest)\<close>
proof -
  have e: \<open>SpanLine ''op'' 1 2 ''s'' ''7b3bf470-9456-11e8-9eb6-529269fb1459''
       ''7b3bf470-9456-11e8-9eb6-529269fb1459'' [''not a "uuid"''] [''x'' @ [NL]] []
       ([] :: unit list) ''d''
     = Inr (''"op" source="s" traceId=7b3bf470-9456-11e8-9eb6-529269fb1459''
            @ '' spanId=7b3bf470-9456-11e8-9eb6-529269fb1459 parent=not a "uuid"''
            @ '' followsFrom=x'' @ [NL] @ '' 1 2'' @ [NL], None)\<close>
    by (simp add: SpanLine_eq isUUIDFormat_example sanitizeValue_op sanitizeValue_s
        links_text_def strconv_FormatInt_def decimal_digits.simps digit_char_def)
  from C10_SpanLine_parents_verbatim [THEN conjunct2, THEN conjunct2, THEN mp, OF e]
  have "\<exists>rest. ''\"op\" source=\"s\" traceId=7b3bf470-9456-11e8-9eb6-529269fb1459''
            @ '' spanId=7b3bf470-9456-11e8-9eb6-529269fb1459 parent=not a \"uuid\"''
            @ '' followsFrom=x'' @ [NL] @ '' 1 2'' @ [NL]
          = sanitizeValue ''op'' @ '' source='' @ sanitizeValue ''s''
            @ '' traceId='' @ ''7b3bf470-9456-11e8-9eb6-529269fb1459''
            @ '' spanId='' @ ''7b3bf470-9456-11e8-9eb6-529269fb1459''
            @ concat (map (\<lambda>parent. '' parent='' @ parent) [''not a \"uuid\"''])
            @ concat (map (\<lambda>item. '' followsFrom='' @ item) [''x'' @ [NL]])
            @ rest"
    by simp
  with e show ?thesis
    by (intro conjI)
qed























section \<open>Further properties of the code\<close>

definition uuid_byte_ok :: "nat \<Rightarrow> char \<Rightarrow> bool" where
  "uuid_byte_ok i c =
     (if i = 8 \<or> i = 13 \<or> i = 18 \<or> i = 23 then c = CHR ''-''
      else (CHR ''0'' \<le> c \<and> c \<le> CHR ''9'') \<or> (CHR ''a'' \<le> c \<and> c \<le> CHR ''f'')
           \<or> (CHR ''A'' \<le> c \<and> c \<le> CHR ''F''))"

lemma isUUIDFormat_loop_step:
  "i < n \<Longrightarrow>
     isUUIDFormat_loop str n i \<longleftrightarrow> uuid_byte_ok i (str ! i) \<and> isUUIDFormat_loop str n (i + 1)"
  by (subst isUUIDFormat_loop.simps) (simp add: uuid_byte_ok_def Let_def)

lemma isUUIDFormat_loop_done: "\<not> i < n \<Longrightarrow> isUUIDFormat_loop str n i"
  by (subst isUUIDFormat_loop.simps) simp

lemma isUUIDFormat_loop_iff:
  "isUUIDFormat_loop str n i \<longleftrightarrow> (\<forall>j. i \<le> j \<and> j < n \<longrightarrow> uuid_byte_ok j (str ! j))"
proof (induction "n - i" arbitrary: i)
  case 0
  then have "\<not> i < n" by simp
  then show ?case
    using isUUIDFormat_loop_done [of i n str] by auto
next
  case (Suc d)
  then have lt: "i < n" and d: "d = n - (i + 1)"
    by simp_all
  have split: "i \<le> j \<longleftrightarrow> j = i \<or> i + 1 \<le> j" for j
    by auto
  have "isUUIDFormat_loop str n i
          \<longleftrightarrow> uuid_byte_ok i (str ! i) \<and> isUUIDFormat_loop str n (i + 1)"
    using lt by (rule isUUIDFormat_loop_step)
  also have "\<dots> \<longleftrightarrow> uuid_byte_ok i (str ! i)
                      \<and> (\<forall>j. i + 1 \<le> j \<and> j < n \<longrightarrow> uuid_byte_ok j (str ! j))"
    using Suc.hyps(1) [OF d] by simp
  also have "\<dots> \<longleftrightarrow> (\<forall>j. i \<le> j \<and> j < n \<longrightarrow> uuid_byte_ok j (str ! j))"
    using lt unfolding split by blast
  finally show ?case .
qed

text \<open>
  A string is in UUID format exactly when it has 36 bytes, a hyphen at the positions
  8, 13, 18 and 23, and a hexadecimal digit of either case at every other position.
\<close>

theorem isUUIDFormat_iff:
  "isUUIDFormat str \<longleftrightarrow>
     length str = 36
     \<and> (\<forall>i < 36. if i = 8 \<or> i = 13 \<or> i = 18 \<or> i = 23 then str ! i = CHR ''-''
                  else (CHR ''0'' \<le> str ! i \<and> str ! i \<le> CHR ''9'')
                       \<or> (CHR ''a'' \<le> str ! i \<and> str ! i \<le> CHR ''f'')
                       \<or> (CHR ''A'' \<le> str ! i \<and> str ! i \<le> CHR ''F''))"
proof -
  have "isUUIDFormat str \<longleftrightarrow> length str = 36 \<and> isUUIDFormat_loop str 36 0"
    by (cases "length str = 36") (simp_all add: isUUIDFormat_def Let_def)
  also have "\<dots> \<longleftrightarrow> length str = 36 \<and> (\<forall>i < 36. uuid_byte_ok i (str ! i))"
    by (simp add: isUUIDFormat_loop_iff)
  finally show ?thesis
    unfolding uuid_byte_ok_def .
qed

theorem isUUIDFormat_iff_witness:
  "isUUIDFormat ''7b3bf470-9456-11e8-9eb6-529269fb1459''
   \<and> length ''7b3bf470-9456-11e8-9eb6-529269fb1459'' = 36
   \<and> \<not> isUUIDFormat ''7b3bf4709456-11e8-9eb6-529269fb1459''"
proof (intro conjI)
  show "isUUIDFormat ''7b3bf470-9456-11e8-9eb6-529269fb1459''"
    by (rule isUUIDFormat_example)
  then show "length ''7b3bf470-9456-11e8-9eb6-529269fb1459'' = 36"
    using isUUIDFormat_iff [of "''7b3bf470-9456-11e8-9eb6-529269fb1459''"] by blast
  have "length ''7b3bf4709456-11e8-9eb6-529269fb1459'' \<noteq> 36"
    by simp
  then show "\<not> isUUIDFormat ''7b3bf4709456-11e8-9eb6-529269fb1459''"
    using isUUIDFormat_iff [of "''7b3bf4709456-11e8-9eb6-529269fb1459''"] by blast
qed

lemma isUUIDFormat_nonhex: "\<not> isUUIDFormat ''7b3bf470-9456-11e8-9eb6-52926gfb1459''"
  by code_simp

fun tags_text :: "(string \<times> string) list \<Rightarrow> string" where
  "tags_text [] = []"
| "tags_text ((k, v) # tags) =
     [CHR '' '', DQ] @ sanitized_text k @ [DQ, CHR ''=''] @ sanitizeValue v @ tags_text tags"

lemma tags_outcome_keyCheck:
  assumes "\<forall>kv \<in> set kvs. fst kv \<notin> {DeltaPrefix, AltDeltaPrefix}"
  shows "tags_outcome True msg kvs =
           (if \<exists>kv \<in> set kvs. fst kv = [] \<or> snd kv = [] then Inr (Inl (errors_New msg))
            else Inr (Inr (tags_text kvs)))"
  using assms
proof (induction kvs)
  case Nil
  show ?case by simp
next
  case (Cons kv kvs)
  obtain k v where kv: "kv = (k, v)" by (cases kv)
  from Cons.prems have r: "\<forall>kv \<in> set kvs. fst kv \<notin> {DeltaPrefix, AltDeltaPrefix}"
    and km: "k \<noteq> DeltaPrefix" "k \<noteq> AltDeltaPrefix"
    by (simp_all add: kv)
  note IH = Cons.IH [OF r]
  show ?case
  proof (cases "k = [] \<or> v = []")
    case True
    then show ?thesis
      unfolding kv by auto
  next
    case False
    then have k: "k \<noteq> []" and v: "v \<noteq> []"
      by simp_all
    from k km have sk: "\<not> length k \<le> skipHead0 k"
      by (simp add: skipHead0_range_iff)
    show ?thesis
    proof (cases "\<exists>kv \<in> set kvs. fst kv = [] \<or> snd kv = []")
      case True
      with IH have "tags_outcome True msg kvs = Inr (Inl (errors_New msg))"
        by simp
      with k v sk True show ?thesis
        unfolding kv by simp
    next
      case False
      with IH have "tags_outcome True msg kvs = Inr (Inr (tags_text kvs))"
        by simp
      with k v sk False show ?thesis
        unfolding kv by simp
    qed
  qed
qed

text \<open>
  Where no tag key is a bare delta marker, \<open>SpanLine\<close> returns an error exactly when
  the name is empty, the trace ID or the span ID is not in UUID format, or some tag has
  an empty key or an empty value; otherwise it returns a line.
\<close>

theorem SpanLine_error_iff:
  assumes "\<forall>tag \<in> set tags. Key tag \<notin> {DeltaPrefix, AltDeltaPrefix}"
  shows "((\<exists>err. SpanLine name startMillis durationMillis source traceId spanId parents
                    followsFrom tags spanLogs defaultSource = Inr ([], Some err))
          \<longleftrightarrow> name = [] \<or> \<not> isUUIDFormat traceId \<or> \<not> isUUIDFormat spanId
              \<or> (\<exists>tag \<in> set tags. Key tag = [] \<or> SpanTag.Value tag = []))
         \<and> ((\<exists>out. SpanLine name startMillis durationMillis source traceId spanId parents
                    followsFrom tags spanLogs defaultSource = Inr (out, None))
          \<longleftrightarrow> \<not> (name = [] \<or> \<not> isUUIDFormat traceId \<or> \<not> isUUIDFormat spanId
              \<or> (\<exists>tag \<in> set tags. Key tag = [] \<or> SpanTag.Value tag = [])))"
proof -
  let ?kvs = "map (\<lambda>tag. (Key tag, SpanTag.Value tag)) tags"
  from assms have "\<forall>kv \<in> set ?kvs. fst kv \<notin> {DeltaPrefix, AltDeltaPrefix}"
    by simp
  from tags_outcome_keyCheck [OF this, of "''span tag key/value cannot be blank''"]
  have t: "tags_outcome True ''span tag key/value cannot be blank'' ?kvs =
           (if \<exists>tag \<in> set tags. Key tag = [] \<or> SpanTag.Value tag = []
            then Inr (Inl (errors_New ''span tag key/value cannot be blank''))
            else Inr (Inr (tags_text ?kvs)))"
    by simp
  show ?thesis
    unfolding SpanLine_eq t by simp
qed

theorem SpanLine_error_iff_witness:
  "(\<exists>err. SpanLine ''op'' 1 2 ''s'' ''7b3bf470-9456-11e8-9eb6-529269fb1459''
             ''7b3bf470-9456-11e8-9eb6-529269fb1459'' [] []
             [\<lparr>Key = ''k'', Value = ''v''\<rparr>, \<lparr>Key = ''j'', Value = []\<rparr>] ([] :: unit list) ''d''
           = Inr ([], Some err))
   \<and> (\<exists>out. SpanLine ''op'' 1 2 ''s'' ''7b3bf470-9456-11e8-9eb6-529269fb1459''
             ''7b3bf470-9456-11e8-9eb6-529269fb1459'' [] []
             [\<lparr>Key = ''k'', Value = ''v''\<rparr>] ([] :: unit list) ''d''
           = Inr (out, None))"
proof (intro conjI)
  have a: "\<forall>tag \<in> set [\<lparr>Key = ''k'', Value = ''v''\<rparr>, \<lparr>Key = ''j'', Value = []\<rparr>].
             Key tag \<notin> {DeltaPrefix, AltDeltaPrefix}"
    by (simp add: DeltaPrefix_def AltDeltaPrefix_def)
  show "\<exists>err. SpanLine ''op'' 1 2 ''s'' ''7b3bf470-9456-11e8-9eb6-529269fb1459''
             ''7b3bf470-9456-11e8-9eb6-529269fb1459'' [] []
             [\<lparr>Key = ''k'', Value = ''v''\<rparr>, \<lparr>Key = ''j'', Value = []\<rparr>] ([] :: unit list) ''d''
           = Inr ([], Some err)"
    unfolding SpanLine_error_iff [OF a, THEN conjunct1] by simp
  have b: "\<forall>tag \<in> set [\<lparr>Key = ''k'', Value = ''v''\<rparr>]. Key tag \<notin> {DeltaPrefix, AltDeltaPrefix}"
    by (simp add: DeltaPrefix_def AltDeltaPrefix_def)
  show "\<exists>out. SpanLine ''op'' 1 2 ''s'' ''7b3bf470-9456-11e8-9eb6-529269fb1459''
             ''7b3bf470-9456-11e8-9eb6-529269fb1459'' [] []
             [\<lparr>Key = ''k'', Value = ''v''\<rparr>] ([] :: unit list) ''d''
           = Inr (out, None)"
    unfolding SpanLine_error_iff [OF b, THEN conjunct2] by (simp add: isUUIDFormat_example)
qed

text \<open>
  Identifier sanitization panics exactly on the empty string and on a string that is
  only a delta marker; on every other string it returns.
\<close>

theorem sanitizeInternal_panics_iff:
  "((\<exists>p. sanitizeInternal str = Inl p) \<longleftrightarrow> str = [] \<or> str = DeltaPrefix \<or> str = AltDeltaPrefix)
   \<and> ((\<exists>p. sanitizeInternalSb sb str = Inl p)
        \<longleftrightarrow> str = [] \<or> str = DeltaPrefix \<or> str = AltDeltaPrefix)"
  by (simp add: sanitizeInternal_eq sanitizeInternalSb_eq skipHead0_range_iff)

lemma strings_ReplaceAll_byte:
  "strings_ReplaceAll s [c] new = concat (map (\<lambda>x. if x = c then new else [x]) s)"
proof (induction s)
  case Nil
  show ?case by (subst strings_ReplaceAll.simps) simp
next
  case (Cons x xs)
  then show ?case
    by (subst strings_ReplaceAll.simps) auto
qed

text \<open>
  The text \<open>sanitizeValue\<close> returns starts and ends with a double quote and holds no
  newline byte: every newline left after trimming is written as a backslash and \<open>n\<close>.
  A trailing newline is trimmed before any escaping: \<open>He said "hi"\<close> followed by a
  newline becomes \<open>"He said \"hi\""\<close>.
\<close>

theorem sanitizeValue_no_newline:
  \<open>NL \<notin> set (sanitizeValue str) \<and> hd (sanitizeValue str) = DQ \<and> last (sanitizeValue str) = DQ
   \<and> sanitizeValueSb sb str = sb\<lparr>buf := buf sb @ sanitizeValue str\<rparr>
   \<and> sanitizeValue (''He said "hi"'' @ [NL]) = [DQ] @ ''He said '' @ [BSL, DQ] @ ''hi'' @ [BSL, DQ] @ [DQ]\<close>
proof (intro conjI)
  show "NL \<notin> set (sanitizeValue str)"
    by (auto simp: sanitizeValue_def Let_def strings_ReplaceAll_byte split: if_splits)
  show "hd (sanitizeValue str) = DQ"
    by (rule sanitizeValue_hd)
  show "last (sanitizeValue str) = DQ"
    using sanitizeValue_last [of str] by simp
  show "sanitizeValueSb sb str = sb\<lparr>buf := buf sb @ sanitizeValue str\<rparr>"
    by (rule sanitizeValueSb_sanitizeValue)
  show \<open>sanitizeValue (''He said "hi"'' @ [NL]) = [DQ] @ ''He said '' @ [BSL, DQ] @ ''hi'' @ [BSL, DQ] @ [DQ]\<close>
    by code_simp
qed

text \<open>
  The time adjustment as the specification words it: every value up to and including
  999999999999 is multiplied by 1000, the start as well as the end, and an end of 0 is
  then replaced by the start plus one.
\<close>

definition adjustStartEndTime_spec :: "int64 \<Rightarrow> int64 \<Rightarrow> int64 \<times> int64" where
  "adjustStartEndTime_spec startMillis endMillis =
     (let startMillis = (if startMillis \<le>s 999999999999 then startMillis * 1000 else startMillis);
          endMillis = (if endMillis \<le>s 999999999999 then endMillis * 1000 else endMillis);
          endMillis = (if endMillis = 0 then startMillis + 1 else endMillis)
      in (startMillis, endMillis))"

text \<open>
  The code agrees with the specification's wording on every pair of inputs but those
  whose start is 999999999999.
\<close>

theorem adjustStartEndTime_spec_iff:
  "adjustStartEndTime startMillis endMillis = adjustStartEndTime_spec startMillis endMillis
     \<longleftrightarrow> startMillis \<noteq> 999999999999"
proof (cases "startMillis = 999999999999")
  case True
  have "fst (adjustStartEndTime 999999999999 endMillis) = 999999999999"
    by (simp add: adjustStartEndTime_def Let_def)
  moreover have "fst (adjustStartEndTime_spec 999999999999 endMillis) = 999999999999000"
    by (simp add: adjustStartEndTime_spec_def Let_def)
  moreover have "(999999999999 :: int64) \<noteq> 999999999999000"
    by simp
  ultimately have "adjustStartEndTime 999999999999 endMillis
                     \<noteq> adjustStartEndTime_spec 999999999999 endMillis"
    by metis
  with True show ?thesis
    by simp
next
  case False
  have "sint startMillis \<noteq> 999999999999"
  proof
    assume "sint startMillis = 999999999999"
    then have "sint startMillis = sint (999999999999 :: int64)"
      by simp
    then have "startMillis = 999999999999"
      by (rule signed_word_eqI)
    with False show False ..
  qed
  then have "startMillis <s 999999999999 \<longleftrightarrow> startMillis \<le>s 999999999999"
    by (auto simp: word_sless_alt word_sle_eq)
  with False show ?thesis
    by (simp add: adjustStartEndTime_def adjustStartEndTime_spec_def)
qed

end
